theory Spec2Isabelle
  imports Main "HOL-Library.Multiset"
begin

section \<open>Constants (utils/constants.py)\<close>

definition MAX_ITEMS_PER_SPECIFICATION :: int where
  "MAX_ITEMS_PER_SPECIFICATION = 10"

definition MAX_TITLE_LENGTH :: nat where
  "MAX_TITLE_LENGTH = 255"

definition MAX_CONTENT_LENGTH :: nat where
  "MAX_CONTENT_LENGTH = 1000"

definition MIN_CONTENT_LENGTH :: nat where
  "MIN_CONTENT_LENGTH = 1"

definition MIN_ORDER_INDEX :: int where
  "MIN_ORDER_INDEX = 0"

definition MAX_ORDER_INDEX :: int where
  "MAX_ORDER_INDEX = 1000"

definition MAX_SPECIFICATIONS_PER_PROJECT :: int where
  "MAX_SPECIFICATIONS_PER_PROJECT = 100"

text \<open>The entries of \<^verbatim>\<open>ERROR_MESSAGES\<close> that the repositories and models raise.\<close>

definition MAX_ITEMS_REACHED :: string where
  "MAX_ITEMS_REACHED = ''Maximum number of items (10) reached for specification''"

definition INVALID_ORDER_INDEX :: string where
  "INVALID_ORDER_INDEX = ''Order index must be between 0 and 1000''"

definition UNAUTHORIZED_ACCESS :: string where
  "UNAUTHORIZED_ACCESS = ''Unauthorized access to resource''"

text \<open>
  Exceptions are values. \<open>ValueError\<close> and \<open>PermissionError\<close> carry their message.
  \<open>TypeError\<close> and \<open>AttributeError\<close> are Python's own. The other four are classes of
  \<^verbatim>\<open>sqlalchemy.exc\<close>, all subclasses of \<^verbatim>\<open>SQLAlchemyError\<close>: \<open>IntegrityError\<close> for a
  row whose foreign key has no target, \<open>DataError\<close> for a value the column type cannot
  hold, \<open>NotSupportedError\<close> for a statement the server does not support, and
  \<open>InvalidRequestError\<close> for a query the ORM cannot build.
\<close>

datatype error =
  ValueError string | PermissionError string | TypeError | AttributeError
  | IntegrityError | DataError | NotSupportedError | InvalidRequestError

text \<open>What \<^verbatim>\<open>except SQLAlchemyError\<close> catches.\<close>

fun is_SQLAlchemyError :: "error \<Rightarrow> bool" where
  "is_SQLAlchemyError IntegrityError = True"
| "is_SQLAlchemyError DataError = True"
| "is_SQLAlchemyError NotSupportedError = True"
| "is_SQLAlchemyError InvalidRequestError = True"
| "is_SQLAlchemyError _ = False"

section \<open>Validators (utils/validators.py)\<close>

text \<open>
  \<^verbatim>\<open>validate_order_index\<close> on \<open>None\<close> and on Python integers. The branch that converts
  a \<^verbatim>\<open>str\<close> with \<^verbatim>\<open>int(...)\<close> and the rejection of other types are not part of this
  model: every caller modelled here passes \<open>None\<close> or an integer.
\<close>

definition validate_order_index :: "int option \<Rightarrow> bool" where
  "validate_order_index v =
     (case v of
        None \<Rightarrow> False
      | Some n \<Rightarrow> if n < 0 \<or> n > 1000000 then False else True)"


text \<open>
  \<^verbatim>\<open>str.strip()\<close>. A \<open>char\<close> stands for the code point of the same number, 0 to 255.
  Among these Python's \<^verbatim>\<open>str.isspace\<close> accepts 9 to 13, 28 to 32, 133 (U+0085) and
  160 (U+00A0).
\<close>

definition is_space :: "char \<Rightarrow> bool" where
  "is_space c =
     (let k = of_char c :: nat
      in (9 \<le> k \<and> k \<le> 13) \<or> (28 \<le> k \<and> k \<le> 32) \<or> k = 133 \<or> k = 160)"

definition strip :: "string \<Rightarrow> string" where
  "strip s = rev (dropWhile is_space (rev (dropWhile is_space s)))"

text \<open>\<^verbatim>\<open>DANGEROUS_CHARS_PATTERN = re.compile(r'[<>&;]')\<close>, used with \<^verbatim>\<open>search\<close>.\<close>

definition dangerous_char :: "char \<Rightarrow> bool" where
  "dangerous_char c = (c = CHR ''<'' \<or> c = CHR ''>'' \<or> c = CHR ''&'' \<or> c = CHR '';'')"

definition validate_content_length :: "string option \<Rightarrow> bool" where
  "validate_content_length content =
     (case content of
        None \<Rightarrow> False
      | Some c \<Rightarrow>
          let c' = strip c; content_length = length c' in
          if content_length < MIN_CONTENT_LENGTH \<or> content_length > MAX_CONTENT_LENGTH then False
          else if list_ex dangerous_char c' then False
          else True)"

section \<open>Models (db/models/items.py, specifications.py, projects.py)\<close>

text \<open>
  One record per mapped class, one field per column. The timestamp columns are left out:
  no operation below reads them.
\<close>

record Item =
  item_id :: int
  spec_id :: int
  content :: string
  order_index :: int

record Specification =
  spec_id :: int
  project_id :: int
  content :: string
  order_index :: int

record Project =
  project_id :: int
  title :: string
  owner_id :: string

section \<open>The session (db/session.py)\<close>

text \<open>The rows of the three tables that the repositories write, in storage order.\<close>

record tables =
  stored_projects :: "Project list"
  stored_specifications :: "Specification list"
  stored_items :: "Item list"

text \<open>
  A repository's session and the server behind it.
  \<^item> \<open>projects\<close>, \<open>specifications\<close>, \<open>items\<close>: the tables as the session reads them,
    its own uncommitted writes included. \<open>users\<close> holds the \<^verbatim>\<open>google_id\<close> column of the
    users table, the target of \<^verbatim>\<open>projects.owner_id\<close>; nothing below writes it.
  \<^item> \<open>next_project_id\<close>, \<open>next_item_id\<close>: the next value of the two autoincrement
    sequences; a rollback does not move a sequence back.
  \<^item> \<open>savepoints\<close>: one entry for every \<^verbatim>\<open>begin_nested()\<close> that no \<^verbatim>\<open>commit()\<close> or
    \<^verbatim>\<open>rollback()\<close> has closed yet, innermost first: the tables as they were when the
    savepoint was set.
  \<^item> \<open>committed\<close>: the tables as of the last commit of the outermost transaction.
  \<^item> \<open>locks_outer_joins\<close>: whether the server runs \<^verbatim>\<open>SELECT ... FOR UPDATE\<close> on a
    statement that outer-joins a second table. PostgreSQL, the one server
    config/database.py builds a connection URI for, refuses it, so the field is
    \<open>False\<close> in every session built by \<open>connect\<close> below.
\<close>

record database =
  users :: "string list"
  projects :: "Project list"
  specifications :: "Specification list"
  items :: "Item list"
  next_project_id :: int
  next_item_id :: int
  locks_outer_joins :: bool
  savepoints :: "tables list"
  committed :: tables

definition snapshot :: "database \<Rightarrow> tables" where
  "snapshot db =
     \<lparr>stored_projects = projects db, stored_specifications = specifications db,
      stored_items = items db\<rparr>"

definition restore :: "tables \<Rightarrow> database \<Rightarrow> database" where
  "restore t db =
     db\<lparr>projects := stored_projects t, specifications := stored_specifications t,
        items := stored_items t\<rparr>"

text \<open>
  \<^verbatim>\<open>SessionLocal\<close> is a \<^verbatim>\<open>sessionmaker(autocommit=False, autoflush=False, ...)\<close> in the
  1.x style. There \<^verbatim>\<open>begin_nested()\<close> sets a savepoint; \<^verbatim>\<open>commit()\<close> releases the
  innermost open savepoint and commits the outermost transaction only when no
  savepoint is open; \<^verbatim>\<open>rollback()\<close> goes back to the innermost open savepoint and
  closes it, or rolls the outermost transaction back when none is open.
\<close>

definition begin_nested :: "database \<Rightarrow> database" where
  "begin_nested db = db\<lparr>savepoints := snapshot db # savepoints db\<rparr>"

definition commit :: "database \<Rightarrow> database" where
  "commit db =
     (case savepoints db of
        [] \<Rightarrow> db\<lparr>committed := snapshot db\<rparr>
      | t # ts \<Rightarrow> db\<lparr>savepoints := ts\<rparr>)"

definition rollback :: "database \<Rightarrow> database" where
  "rollback db =
     (case savepoints db of
        [] \<Rightarrow> restore (committed db) db
      | t # ts \<Rightarrow> (restore t db)\<lparr>savepoints := ts\<rparr>)"

text \<open>
  A query ending in \<^verbatim>\<open>.with_for_update().first()\<close> on a class with a \<^verbatim>\<open>lazy="joined"\<close>
  relationship (\<^verbatim>\<open>Item.specification\<close>, \<^verbatim>\<open>Specification.project\<close>): the eager load is a
  \<^verbatim>\<open>LEFT OUTER JOIN\<close> in the same statement, which PostgreSQL refuses under
  \<^verbatim>\<open>FOR UPDATE\<close>.
\<close>

definition with_for_update_first ::
  "database \<Rightarrow> ('a \<Rightarrow> bool) \<Rightarrow> 'a list \<Rightarrow> error + 'a option" where
  "with_for_update_first db P rows =
     (if locks_outer_joins db then Inr (find P rows) else Inl NotSupportedError)"

text \<open>
  The values an \<^verbatim>\<open>Integer\<close> column holds on PostgreSQL (four bytes); a statement that
  assigns another value raises \<^verbatim>\<open>DataError\<close>.
\<close>

definition INTEGER :: "int \<Rightarrow> bool" where
  "INTEGER v \<longleftrightarrow> - 2147483648 \<le> v \<and> v \<le> 2147483647"

section \<open>Item model (db/models/items.py)\<close>

text \<open>
  \<^verbatim>\<open>Item.validate_content\<close> and \<^verbatim>\<open>Item.validate_order\<close>, the \<^verbatim>\<open>@validates\<close> hooks that run
  when \<^verbatim>\<open>Item.__init__\<close> assigns the two attributes.
\<close>

definition validate_content :: "string \<Rightarrow> error + string" where
  "validate_content c =
     (if c = [] \<or> \<not> validate_content_length (Some c)
      then Inl (ValueError ''Content must be between 1 and 1000 characters'')
      else Inr (strip c))"

definition validate_order :: "int option \<Rightarrow> error + int" where
  "validate_order v =
     (if \<not> validate_order_index v then Inl (ValueError INVALID_ORDER_INDEX)
      else Inr (the v))"

text \<open>
  \<^verbatim>\<open>Item.__init__\<close>: the assignments run in the order \<^verbatim>\<open>spec_id\<close>, \<^verbatim>\<open>content\<close>,
  \<^verbatim>\<open>order_index\<close>, so a bad content is reported before a bad index. \<^verbatim>\<open>item_id\<close> is
  unset until the row is flushed; 0 stands for unset.
\<close>

definition Item_init :: "int \<Rightarrow> string \<Rightarrow> int option \<Rightarrow> error + Item" where
  "Item_init sid c v =
     (case validate_content c of
        Inl e \<Rightarrow> Inl e
      | Inr c' \<Rightarrow>
          (case validate_order v of
             Inl e \<Rightarrow> Inl e
           | Inr v' \<Rightarrow> Inr \<lparr>item_id = 0, spec_id = sid, content = c', order_index = v'\<rparr>))"

section \<open>Item repository (db/repositories/items.py)\<close>

text \<open>The rows of one specification, in storage order.\<close>

definition items_of :: "database \<Rightarrow> int \<Rightarrow> Item list" where
  "items_of db sid = filter (\<lambda>it. Item.spec_id it = sid) (items db)"

text \<open>\<^verbatim>\<open>query(func.count(Item.item_id)).filter(Item.spec_id == sid).scalar()\<close>\<close>

definition count_items :: "database \<Rightarrow> int \<Rightarrow> int" where
  "count_items db sid = int (length (items_of db sid))"

text \<open>
  \<^verbatim>\<open>query(func.max(Item.order_index)).filter(Item.spec_id == sid).scalar()\<close>: SQL's
  \<^verbatim>\<open>MAX\<close> over no rows is \<^verbatim>\<open>NULL\<close>, read as \<open>None\<close>.
\<close>

definition max_order_index :: "database \<Rightarrow> int \<Rightarrow> int option" where
  "max_order_index db sid =
     (case map Item.order_index (items_of db sid) of
        [] \<Rightarrow> None
      | x # xs \<Rightarrow> Some (fold max xs x))"

text \<open>
  Python's \<^verbatim>\<open>v or d\<close> for \<open>v\<close> an integer or \<open>None\<close>: \<open>d\<close> when \<open>v\<close> is falsy, and
  both \<open>None\<close> and \<open>0\<close> are falsy.
\<close>

definition py_or :: "int option \<Rightarrow> int \<Rightarrow> int" where
  "py_or v d = (case v of None \<Rightarrow> d | Some x \<Rightarrow> if x = 0 then d else x)"

text \<open>
  \<^verbatim>\<open>get_by_specification\<close>: the rows of the specification, \<^verbatim>\<open>ORDER BY order_index\<close>.
  SQL leaves the order of rows with equal keys open; the model uses a stable sort of the
  storage order. The function raises nothing of its own (it only re-raises a failure of
  the database), so every result is \<open>Inr\<close>.
\<close>

definition get_by_specification :: "database \<Rightarrow> int \<Rightarrow> error + Item list" where
  "get_by_specification db sid = Inr (sort_key Item.order_index (items_of db sid))"

text \<open>
  The \<^verbatim>\<open>before_insert\<close> listener \<^verbatim>\<open>validate_item_count\<close> of the Item model. It runs at
  flush, before the new row is written, so it counts the rows already stored.
\<close>

definition validate_item_count :: "database \<Rightarrow> Item \<Rightarrow> error + bool" where
  "validate_item_count db target =
     (if count_items db (Item.spec_id target) \<ge> MAX_ITEMS_PER_SPECIFICATION
      then Inl (ValueError MAX_ITEMS_REACHED)
      else Inr True)"

text \<open>
  \<^verbatim>\<open>BaseRepository.create\<close> for the Item model, under its \<^verbatim>\<open>@transactional\<close> decorator:
  build the instance (its validators run), add it, flush, then \<^verbatim>\<open>commit()\<close>. The flush
  runs the \<^verbatim>\<open>before_insert\<close> listener, then inserts the row: the database refuses a
  \<^verbatim>\<open>spec_id\<close> without a specification (foreign key) and otherwise assigns the next
  \<^verbatim>\<open>item_id\<close>. The decorator answers a \<^verbatim>\<open>SQLAlchemyError\<close> with \<^verbatim>\<open>rollback()\<close>; a
  \<^verbatim>\<open>ValueError\<close> passes through it. (The listener's refusal cannot happen under
  \<^verbatim>\<open>create_item\<close>, which has refused the same count before.)
\<close>

definition BaseRepository_create_Item ::
  "database \<Rightarrow> int \<Rightarrow> string \<Rightarrow> int option \<Rightarrow> database \<times> (error + Item)" where
  "BaseRepository_create_Item db sid c v =
     (case Item_init sid c v of
        Inl e \<Rightarrow> (db, Inl e)
      | Inr instance \<Rightarrow>
          (case validate_item_count db instance of
             Inl e \<Rightarrow> (db, Inl e)
           | Inr _ \<Rightarrow>
               if \<not> list_ex (\<lambda>s. Specification.spec_id s = sid) (specifications db)
               then (rollback db, Inl IntegrityError)
               else
                 let row = instance\<lparr>item_id := next_item_id db\<rparr> in
                 (commit (db\<lparr>items := items db @ [row],
                             next_item_id := next_item_id db + 1\<rparr>),
                  Inr row)))"

text \<open>
  The \<^verbatim>\<open>item_data\<close> dictionary of \<^verbatim>\<open>create_item\<close>. \<open>order_index = None\<close> is the
  dictionary without the key \<^verbatim>\<open>'order_index'\<close>.
\<close>

record item_data =
  spec_id :: int
  content :: string
  order_index :: "int option"

text \<open>
  The index \<^verbatim>\<open>create_item\<close> computes when the key is absent:
  \<^verbatim>\<open>max_order = query(func.max(Item.order_index))...scalar() or -1\<close>, then
  \<^verbatim>\<open>max_order + 1\<close>.
\<close>

definition next_order_index :: "database \<Rightarrow> int \<Rightarrow> int" where
  "next_order_index db sid = py_or (max_order_index db sid) (- 1) + 1"

text \<open>
  \<^verbatim>\<open>create_item\<close>: \<^verbatim>\<open>begin_nested()\<close>, the count check, the index, \<^verbatim>\<open>super().create\<close>
  (which commits once, releasing the savepoint), then a second \<^verbatim>\<open>commit()\<close>. Only a
  \<^verbatim>\<open>SQLAlchemyError\<close> is caught and answered with \<^verbatim>\<open>rollback()\<close>; a \<^verbatim>\<open>ValueError\<close>
  leaves the savepoint open.
\<close>

definition create_item :: "database \<Rightarrow> item_data \<Rightarrow> database \<times> (error + Item)" where
  "create_item db data =
     (let db1 = begin_nested db;
          current_count = count_items db1 (item_data.spec_id data)
      in
      if current_count \<ge> MAX_ITEMS_PER_SPECIFICATION
      then (db1, Inl (ValueError MAX_ITEMS_REACHED))
      else
        let v = (case item_data.order_index data of
                   None \<Rightarrow> next_order_index db1 (item_data.spec_id data)
                 | Some v \<Rightarrow> v)
        in
        (case BaseRepository_create_Item db1 (item_data.spec_id data)
                (item_data.content data) (Some v) of
           (db2, Inl e) \<Rightarrow> if is_SQLAlchemyError e then (rollback db2, Inl e) else (db2, Inl e)
         | (db2, Inr item) \<Rightarrow> (commit db2, Inr item)))"

text \<open>
  One pass of the loop of \<^verbatim>\<open>update_order\<close>:
  \<^verbatim>\<open>query(Item).filter(Item.item_id == id).update({"order_index": v})\<close>. A bulk update
  does not run the model's validators; the column type is all that stands in the way.
\<close>

definition set_order_index :: "int \<times> int \<Rightarrow> Item list \<Rightarrow> Item list" where
  "set_order_index u rows =
     map (\<lambda>it. if item_id it = fst u then it\<lparr>Item.order_index := snd u\<rparr> else it) rows"

text \<open>The loop: it stops at the first statement the server refuses.\<close>

fun bulk_updates :: "(int \<times> int) list \<Rightarrow> Item list \<Rightarrow> error + Item list" where
  "bulk_updates [] rows = Inr rows"
| "bulk_updates (u # us) rows =
     (if INTEGER (snd u) then bulk_updates us (set_order_index u rows) else Inl DataError)"

text \<open>
  \<^verbatim>\<open>ItemRepository.update_order\<close>. An entry of \<^verbatim>\<open>order_updates\<close> is the pair of its
  \<^verbatim>\<open>item_id\<close> and its \<^verbatim>\<open>order_index\<close>. There is one \<^verbatim>\<open>commit()\<close> after the
  \<^verbatim>\<open>begin_nested()\<close>: it releases the savepoint, and the writes stay in the session's
  open transaction.
\<close>

definition ItemRepository_update_order ::
  "database \<Rightarrow> int \<Rightarrow> (int \<times> int) list \<Rightarrow> database \<times> (error + Item list)" where
  "ItemRepository_update_order db sid order_updates =
     (let db1 = begin_nested db;
          item_ids = map fst order_updates;
          found = filter (\<lambda>it. Item.spec_id it = sid \<and> item_id it \<in> set item_ids) (items db1)
      in
      if length found \<noteq> length order_updates
      then (db1, Inl (ValueError ''Invalid item IDs in order update request''))
      else
        (case bulk_updates order_updates (items db1) of
           Inl e \<Rightarrow> (rollback db1, Inl e)
         | Inr rows \<Rightarrow>
             let db2 = commit (db1\<lparr>items := rows\<rparr>)
             in (db2, get_by_specification db2 sid)))"

text \<open>
  The loop of \<^verbatim>\<open>update_order\<close> seen from one row, when no id occurs twice in
  \<^verbatim>\<open>order_updates\<close>: a row named by an update takes that update's index, any other
  row is left as it is (lemma \<open>fold_set_order_index_distinct\<close>).
\<close>

definition assigned :: "(int \<times> int) list \<Rightarrow> Item \<Rightarrow> Item" where
  "assigned us it =
     (case map_of us (item_id it) of
        None \<Rightarrow> it
      | Some v \<Rightarrow> it\<lparr>Item.order_index := v\<rparr>)"

text \<open>
  \<^verbatim>\<open>super().delete(item_id)\<close> in \<^verbatim>\<open>delete_item\<close>: \<^verbatim>\<open>BaseRepository\<close>
  (db/repositories/base.py) defines \<^verbatim>\<open>get_by_id\<close>, \<^verbatim>\<open>get_all\<close>, \<^verbatim>\<open>create\<close> and
  \<^verbatim>\<open>bulk_create\<close> and no \<^verbatim>\<open>delete\<close>, so the attribute lookup raises.
\<close>

definition super_delete :: "database \<Rightarrow> int \<Rightarrow> database \<times> (error + unit)" where
  "super_delete db iid = (db, Inl AttributeError)"

text \<open>
  The bulk update of \<^verbatim>\<open>delete_item\<close>: rows of the specification with an index above
  the deleted one move down by one.
\<close>

definition shift_down :: "int \<Rightarrow> int \<Rightarrow> Item \<Rightarrow> Item" where
  "shift_down sid deleted_order it =
     (if Item.spec_id it = sid \<and> Item.order_index it > deleted_order
      then it\<lparr>Item.order_index := Item.order_index it - 1\<rparr> else it)"

text \<open>
  \<^verbatim>\<open>delete_item\<close>. The locking query comes first; where the server answers it, an
  unknown id raises \<^verbatim>\<open>ValueError\<close> and a known one reaches \<^verbatim>\<open>super().delete\<close>. The
  renumbering, the \<^verbatim>\<open>commit()\<close> and \<^verbatim>\<open>return True\<close> stand behind that call.
\<close>

definition delete_item :: "database \<Rightarrow> int \<Rightarrow> database \<times> (error + bool)" where
  "delete_item db iid =
     (let db1 = begin_nested db in
      case with_for_update_first db1 (\<lambda>it. item_id it = iid) (items db1) of
        Inl e \<Rightarrow> (rollback db1, Inl e)
      | Inr None \<Rightarrow> (db1, Inl (ValueError ''Item not found''))
      | Inr (Some it) \<Rightarrow>
          let sid = Item.spec_id it;
              deleted_order = Item.order_index it
          in
          (case super_delete db1 iid of
             (db2, Inl e) \<Rightarrow>
               if is_SQLAlchemyError e then (rollback db2, Inl e) else (db2, Inl e)
           | (db2, Inr _) \<Rightarrow>
               let db3 = db2\<lparr>items := map (shift_down sid deleted_order) (items db2)\<rparr>
               in (commit db3, Inr True)))"

text \<open>
  The index values of a specification's items, and the invariant the data model asks
  of them: sorted, they are \<open>0, 1, \<dots>, count - 1\<close>, which says that they are unique
  and fill the range without a gap.
\<close>

definition order_indexes :: "database \<Rightarrow> int \<Rightarrow> int list" where
  "order_indexes db sid = map Item.order_index (items_of db sid)"

definition dense :: "database \<Rightarrow> int \<Rightarrow> bool" where
  "dense db sid \<longleftrightarrow>
     sort (order_indexes db sid) = map int [0..<length (order_indexes db sid)]"

section \<open>Specification model and repository (db/models/specifications.py, db/repositories/specifications.py)\<close>

text \<open>
  \<^verbatim>\<open>Specification._validate_order_index\<close>: it raises the message built from
  \<^verbatim>\<open>MIN_ORDER_INDEX\<close> and \<^verbatim>\<open>MAX_ORDER_INDEX\<close> when \<^verbatim>\<open>validate_order_index\<close> rejects the
  index, and returns the index otherwise.
\<close>

definition Specification_validate_order_index :: "int \<Rightarrow> error + int" where
  "Specification_validate_order_index v =
     (if \<not> validate_order_index (Some v)
      then Inl (ValueError ''Order index must be between 0 and 1000'')
      else Inr v)"

text \<open>
  \<^verbatim>\<open>Specification.reorder\<close>: \<^verbatim>\<open>self.order_index = self._validate_order_index(...)\<close>.
  The class has no \<^verbatim>\<open>@validates\<close> hook on \<^verbatim>\<open>order_index\<close>.
\<close>

definition reorder :: "Specification \<Rightarrow> int \<Rightarrow> error + Specification" where
  "reorder spec new_order_index =
     (case Specification_validate_order_index new_order_index of
        Inl e \<Rightarrow> Inl e
      | Inr v \<Rightarrow> Inr (spec\<lparr>Specification.order_index := v\<rparr>))"

text \<open>The join with \<^verbatim>\<open>Project\<close> filtered by \<^verbatim>\<open>Project.owner_id == owner_id\<close>.\<close>

definition owned_by :: "database \<Rightarrow> string \<Rightarrow> Specification \<Rightarrow> bool" where
  "owned_by db owner s =
     list_ex (\<lambda>p. Project.project_id p = Specification.project_id s \<and> owner_id p = owner)
       (projects db)"

text \<open>The two bulk updates of \<^verbatim>\<open>update_order\<close>, on one row.\<close>

definition move_down :: "int \<Rightarrow> int \<Rightarrow> int \<Rightarrow> int \<Rightarrow> Specification \<Rightarrow> Specification" where
  "move_down pid sid old_order new_order_index s =
     (if Specification.project_id s = pid
         \<and> Specification.order_index s \<le> new_order_index
         \<and> Specification.order_index s > old_order
         \<and> Specification.spec_id s \<noteq> sid
      then s\<lparr>Specification.order_index := Specification.order_index s - 1\<rparr> else s)"

definition move_up :: "int \<Rightarrow> int \<Rightarrow> int \<Rightarrow> int \<Rightarrow> Specification \<Rightarrow> Specification" where
  "move_up pid sid old_order new_order_index s =
     (if Specification.project_id s = pid
         \<and> Specification.order_index s \<ge> new_order_index
         \<and> Specification.order_index s < old_order
         \<and> Specification.spec_id s \<noteq> sid
      then s\<lparr>Specification.order_index := Specification.order_index s + 1\<rparr> else s)"

text \<open>
  \<^verbatim>\<open>SpecificationRepository.update_order\<close>. The locking query comes first. Where the
  server answers it: the session does not autoflush, so the bulk update of the siblings
  runs on the stored rows and the assignment made by \<^verbatim>\<open>spec.reorder\<close> is written by the
  flush inside the one \<^verbatim>\<open>commit()\<close>, which then releases the savepoint of
  \<^verbatim>\<open>begin_nested()\<close>. \<^verbatim>\<open>PermissionError\<close> and \<^verbatim>\<open>ValueError\<close> are not caught. The cache
  invalidation is outside the model.
\<close>

definition SpecificationRepository_update_order ::
  "database \<Rightarrow> int \<Rightarrow> int \<Rightarrow> string \<Rightarrow> database \<times> (error + bool)" where
  "SpecificationRepository_update_order db sid new_order_index owner =
     (let db1 = begin_nested db in
      case with_for_update_first db1
             (\<lambda>s. Specification.spec_id s = sid \<and> owned_by db1 owner s) (specifications db1) of
        Inl e \<Rightarrow> (rollback db1, Inl e)
      | Inr None \<Rightarrow> (db1, Inl (PermissionError UNAUTHORIZED_ACCESS))
      | Inr (Some spec) \<Rightarrow>
          let old_order = Specification.order_index spec in
          (case reorder spec new_order_index of
             Inl e \<Rightarrow> (db1, Inl e)
           | Inr spec' \<Rightarrow>
               let rows1 = (if new_order_index > old_order
                            then map (move_down (Specification.project_id spec) sid old_order
                                        new_order_index) (specifications db1)
                            else map (move_up (Specification.project_id spec) sid old_order
                                        new_order_index) (specifications db1));
                   rows2 = map (\<lambda>s. if Specification.spec_id s = sid
                                     then s\<lparr>Specification.order_index :=
                                              Specification.order_index spec'\<rparr>
                                     else s) rows1
               in (commit (db1\<lparr>specifications := rows2\<rparr>), Inr True)))"

section \<open>Project model and repository (db/models/projects.py, db/repositories/projects.py)\<close>

text \<open>
  The method \<^verbatim>\<open>Project.validate_title\<close>, called as \<^verbatim>\<open>self.validate_title(title)\<close>.
  \<^verbatim>\<open>sanitize_string\<close> is imported from utils/validators.py, which does not define it:
  it is a parameter here.
\<close>

definition validate_title :: "(string \<Rightarrow> string) \<Rightarrow> string \<Rightarrow> error + string" where
  "validate_title sanitize_string t =
     (if t = [] then Inl (ValueError ''Project title is required'')
      else
        let sanitized_title = sanitize_string t in
        if sanitized_title = []
        then Inl (ValueError ''Project title cannot be empty after sanitization'')
        else if length sanitized_title > MAX_TITLE_LENGTH
        then Inl (ValueError ''Project title cannot exceed 255 characters'')
        else Inr sanitized_title)"

text \<open>
  The same method as the \<^verbatim>\<open>@validates('title')\<close> hook: an assignment to \<^verbatim>\<open>self.title\<close>
  calls it with the instance, the attribute name and the value, one argument more than
  \<^verbatim>\<open>validate_title(self, title)\<close> takes.
\<close>

definition title_hook :: "string \<Rightarrow> error + string" where
  "title_hook t = Inl TypeError"

text \<open>
  \<^verbatim>\<open>Project.__init__\<close>: the owner check, \<^verbatim>\<open>self.owner_id = owner_id\<close>, then
  \<^verbatim>\<open>self.title = self.validate_title(title)\<close>, whose assignment runs the hook.
  \<^verbatim>\<open>project_id\<close> is unset (0) until the row is flushed.
\<close>

definition Project_init :: "(string \<Rightarrow> string) \<Rightarrow> string \<Rightarrow> string \<Rightarrow> error + Project" where
  "Project_init sanitize_string t owner =
     (if owner = [] then Inl (ValueError ''owner_id is required'')
      else
        (case validate_title sanitize_string t of
           Inl e \<Rightarrow> Inl e
         | Inr t' \<Rightarrow>
             (case title_hook t' of
                Inl e \<Rightarrow> Inl e
              | Inr t'' \<Rightarrow> Inr \<lparr>project_id = 0, title = t'', owner_id = owner\<rparr>)))"

text \<open>
  \<^verbatim>\<open>Query.all()\<close> on a query with \<^verbatim>\<open>joinedload(Project.specifications)\<close>: the
  relationship is \<^verbatim>\<open>lazy='dynamic'\<close>, which takes no eager loading, and the ORM refuses
  to build the query.
\<close>

definition all_joinedload_dynamic :: "'a list \<Rightarrow> error + 'a list" where
  "all_joinedload_dynamic rows = Inl InvalidRequestError"

text \<open>
  \<^verbatim>\<open>get_by_owner\<close>: the owner's projects through the query above; any exception is
  answered with \<^verbatim>\<open>rollback()\<close> and raised again. The memoizing cache in front of it
  and the ordering by \<^verbatim>\<open>updated_at\<close> are outside the model.
\<close>

definition get_by_owner :: "database \<Rightarrow> string \<Rightarrow> database \<times> (error + Project list)" where
  "get_by_owner db owner =
     (case all_joinedload_dynamic (filter (\<lambda>p. owner_id p = owner) (projects db)) of
        Inl e \<Rightarrow> (rollback db, Inl e)
      | Inr rows \<Rightarrow> (db, Inr rows))"

text \<open>
  \<^verbatim>\<open>BaseRepository.create\<close> for the Project model, under \<^verbatim>\<open>@transactional\<close>: the
  database refuses an \<^verbatim>\<open>owner_id\<close> that is no user's \<^verbatim>\<open>google_id\<close> (foreign key).
\<close>

definition BaseRepository_create_Project ::
  "(string \<Rightarrow> string) \<Rightarrow> database \<Rightarrow> string \<Rightarrow> string \<Rightarrow> database \<times> (error + Project)" where
  "BaseRepository_create_Project sanitize_string db t owner =
     (case Project_init sanitize_string t owner of
        Inl e \<Rightarrow> (db, Inl e)
      | Inr instance \<Rightarrow>
          if owner \<notin> set (users db) then (rollback db, Inl IntegrityError)
          else
            let row = instance\<lparr>Project.project_id := next_project_id db\<rparr> in
            (commit (db\<lparr>projects := projects db @ [row],
                        next_project_id := next_project_id db + 1\<rparr>),
             Inr row))"

text \<open>
  \<^verbatim>\<open>create_project\<close>. The \<^verbatim>\<open>project_data\<close> dictionary is its one entry, the title.
  The whole body is under \<^verbatim>\<open>except Exception\<close>, which answers with \<^verbatim>\<open>rollback()\<close> and
  raises again.
\<close>

definition create_project ::
  "(string \<Rightarrow> string) \<Rightarrow> database \<Rightarrow> string \<Rightarrow> string \<Rightarrow> database \<times> (error + Project)" where
  "create_project sanitize_string db owner t =
     (case get_by_owner db owner of
        (db1, Inl e) \<Rightarrow> (rollback db1, Inl e)
      | (db1, Inr owner_projects) \<Rightarrow>
          if int (length owner_projects) \<ge> MAX_SPECIFICATIONS_PER_PROJECT
          then (rollback db1, Inl (ValueError MAX_ITEMS_REACHED))
          else
            (case BaseRepository_create_Project sanitize_string db1 t owner of
               (db2, Inl e) \<Rightarrow> (rollback db2, Inl e)
             | (db2, Inr project) \<Rightarrow> (db2, Inr project)))"

section \<open>Sequences of item operations\<close>

text \<open>
  Calls of \<^verbatim>\<open>create_item\<close> and of \<^verbatim>\<open>ItemRepository.update_order\<close> as requests on one
  session, and the session each leaves behind, whether it returns or raises.
\<close>

datatype operation = Create item_data | Reorder int "(int \<times> int) list"

fun perform :: "database \<Rightarrow> operation \<Rightarrow> database" where
  "perform db (Create data) = fst (create_item db data)"
| "perform db (Reorder sid us) = fst (ItemRepository_update_order db sid us)"

fun run :: "database \<Rightarrow> operation list \<Rightarrow> database" where
  "run db [] = db"
| "run db (r # rs) = run (perform db r) rs"

text \<open>
  Primary keys: no two items share an \<^verbatim>\<open>item_id\<close>, and the sequence is ahead of every
  id in use.
\<close>

definition unique_ids :: "database \<Rightarrow> bool" where
  "unique_ids db \<longleftrightarrow>
     distinct (map item_id (items db))
     \<and> (\<forall>it \<in> set (items db). item_id it < next_item_id db)"

text \<open>
  The state the data model asks for, of the tables as the session reads them: unique
  ids and every specification dense. A session is \<open>consistent\<close> when this holds of what
  it reads, of what is committed and of what every open savepoint would bring back.
\<close>

definition well_indexed :: "database \<Rightarrow> bool" where
  "well_indexed db \<longleftrightarrow> unique_ids db \<and> (\<forall>sid. dense db sid)"

definition consistent :: "database \<Rightarrow> bool" where
  "consistent db \<longleftrightarrow>
     well_indexed db
     \<and> well_indexed (restore (committed db) db)
     \<and> (\<forall>t \<in> set (savepoints db). well_indexed (restore t db))"

text \<open>
  The requests under which the indexes stay dense: a creation that appends (no index
  given, on a specification that does not hold exactly one item; or the index given is
  the current count), and a reordering that names every item of the specification with
  indexes that are, sorted, \<open>0, 1, \<dots>\<close> up to their number.
\<close>

fun keeps_order :: "database \<Rightarrow> operation \<Rightarrow> bool" where
  "keeps_order db (Create data) =
     (case item_data.order_index data of
        None \<Rightarrow> count_items db (item_data.spec_id data) \<noteq> 1
      | Some v \<Rightarrow> v = count_items db (item_data.spec_id data))"
| "keeps_order db (Reorder sid us) =
     (set (map fst us) = set (map item_id (items_of db sid))
      \<and> sort (map snd us) = map int [0..<length us])"

fun all_keep_order :: "database \<Rightarrow> operation list \<Rightarrow> bool" where
  "all_keep_order db [] = True"
| "all_keep_order db (r # rs) = (keeps_order db r \<and> all_keep_order (perform db r) rs)"

section \<open>Example sessions\<close>

text \<open>A session just opened on the PostgreSQL server, which holds the given rows.\<close>

definition connect ::
  "string list \<Rightarrow> Project list \<Rightarrow> Specification list \<Rightarrow> Item list \<Rightarrow> int \<Rightarrow> int \<Rightarrow> database"
  where
  "connect us ps ss its next_project next_item =
     \<lparr>users = us, projects = ps, specifications = ss, items = its,
      next_project_id = next_project, next_item_id = next_item,
      locks_outer_joins = False, savepoints = [],
      committed = \<lparr>stored_projects = ps, stored_specifications = ss, stored_items = its\<rparr>\<rparr>"

text \<open>One user, one project, one specification holding one item at index 0.\<close>

definition db_one :: database where
  "db_one =
     connect [''u''] [\<lparr>project_id = 1, title = ''p'', owner_id = ''u''\<rparr>]
       [\<lparr>Specification.spec_id = 1, project_id = 1, content = ''s'', order_index = 0\<rparr>]
       [\<lparr>item_id = 1, spec_id = 1, content = ''a'', order_index = 0\<rparr>] 2 2"

text \<open>Two specifications: the first holds items 1 and 2, the second holds item 3.\<close>

definition db_pair :: database where
  "db_pair =
     connect [''u''] [\<lparr>project_id = 1, title = ''p'', owner_id = ''u''\<rparr>]
       [\<lparr>Specification.spec_id = 1, project_id = 1, content = ''s'', order_index = 0\<rparr>,
        \<lparr>Specification.spec_id = 2, project_id = 1, content = ''t'', order_index = 1\<rparr>]
       [\<lparr>item_id = 1, spec_id = 1, content = ''a'', order_index = 0\<rparr>,
        \<lparr>item_id = 2, spec_id = 1, content = ''b'', order_index = 1\<rparr>,
        \<lparr>item_id = 3, spec_id = 2, content = ''c'', order_index = 0\<rparr>] 2 4"

text \<open>Specification 1 with nine items, at the indexes 0 to 8.\<close>

definition nine_items :: "Item list" where
  "nine_items =
     map (\<lambda>k. \<lparr>item_id = k + 1, spec_id = 1, content = ''a'', order_index = k\<rparr>)
       [0, 1, 2, 3, 4, 5, 6, 7, 8]"

definition db_nine :: database where
  "db_nine =
     connect [''u''] [\<lparr>project_id = 1, title = ''p'', owner_id = ''u''\<rparr>]
       [\<lparr>Specification.spec_id = 1, project_id = 1, content = ''s'', order_index = 0\<rparr>]
       nine_items 2 10"

text \<open>The user owns 100 projects.\<close>

definition hundred_projects :: "Project list" where
  "hundred_projects =
     map (\<lambda>k. \<lparr>project_id = int k + 1, title = ''p'', owner_id = ''u''\<rparr>) [0..<100]"

definition db_hundred :: database where
  "db_hundred = connect [''u''] hundred_projects [] [] 101 1"

text \<open>Project 1 with five specifications, at the indexes 0 to 4.\<close>

definition five_specifications :: "Specification list" where
  "five_specifications =
     map (\<lambda>k. \<lparr>Specification.spec_id = k + 1, project_id = 1, content = ''s'', order_index = k\<rparr>)
       [0, 1, 2, 3, 4]"

definition db_five :: database where
  "db_five =
     connect [''u''] [\<lparr>project_id = 1, title = ''p'', owner_id = ''u''\<rparr>]
       five_specifications [] 2 1"

text \<open>Specification 1 with three items, at the indexes 0, 1 and 2.\<close>

definition db_three :: database where
  "db_three =
     connect [''u''] [\<lparr>project_id = 1, title = ''p'', owner_id = ''u''\<rparr>]
       [\<lparr>Specification.spec_id = 1, project_id = 1, content = ''s'', order_index = 0\<rparr>]
       [\<lparr>item_id = 1, spec_id = 1, content = ''a'', order_index = 0\<rparr>,
        \<lparr>item_id = 2, spec_id = 1, content = ''b'', order_index = 1\<rparr>,
        \<lparr>item_id = 3, spec_id = 1, content = ''c'', order_index = 2\<rparr>] 2 4"

text \<open>Requests that keep the indexes dense, to be run on \<open>db_pair\<close>.\<close>

definition requests :: "operation list" where
  "requests =
     [Create \<lparr>spec_id = 1, content = ''d'', order_index = None\<rparr>,
      Reorder 1 [(1, 2), (2, 0), (4, 1)],
      Create \<lparr>spec_id = 2, content = ''e'', order_index = Some 1\<rparr>]"

section \<open>Properties\<close>

lemmas eval_defs = db_one_def db_pair_def db_nine_def nine_items_def db_three_def connect_def
  count_items_def items_of_def MAX_ITEMS_PER_SPECIFICATION_def
  max_order_index_def next_order_index_def py_or_def BaseRepository_create_Item_def Item_init_def
  validate_content_def validate_content_length_def strip_def is_space_def dangerous_char_def
  MIN_CONTENT_LENGTH_def MAX_CONTENT_LENGTH_def validate_order_def validate_order_index_def
  validate_item_count_def create_item_def begin_nested_def commit_def rollback_def
  snapshot_def restore_def Let_def

lemmas run_defs = requests_def ItemRepository_update_order_def set_order_index_def
  get_by_specification_def INTEGER_def

subsection \<open>The session\<close>

lemma begin_nested_view [simp]:
  "items (begin_nested db) = items db"
  "specifications (begin_nested db) = specifications db"
  "projects (begin_nested db) = projects db"
  "users (begin_nested db) = users db"
  "next_item_id (begin_nested db) = next_item_id db"
  "next_project_id (begin_nested db) = next_project_id db"
  "locks_outer_joins (begin_nested db) = locks_outer_joins db"
  "committed (begin_nested db) = committed db"
  "savepoints (begin_nested db) = snapshot db # savepoints db"
  by (simp_all add: begin_nested_def)

lemma commit_view [simp]:
  "items (commit db) = items db"
  "specifications (commit db) = specifications db"
  "projects (commit db) = projects db"
  "users (commit db) = users db"
  "next_item_id (commit db) = next_item_id db"
  "next_project_id (commit db) = next_project_id db"
  "locks_outer_joins (commit db) = locks_outer_joins db"
  by (simp_all add: commit_def split: list.splits)

lemma restore_fields [simp]:
  "items (restore t db) = stored_items t"
  "specifications (restore t db) = stored_specifications t"
  "projects (restore t db) = stored_projects t"
  "users (restore t db) = users db"
  "next_item_id (restore t db) = next_item_id db"
  "next_project_id (restore t db) = next_project_id db"
  "locks_outer_joins (restore t db) = locks_outer_joins db"
  "savepoints (restore t db) = savepoints db"
  "committed (restore t db) = committed db"
  by (simp_all add: restore_def)

lemma snapshot_fields [simp]:
  "stored_items (snapshot db) = items db"
  "stored_specifications (snapshot db) = specifications db"
  "stored_projects (snapshot db) = projects db"
  by (simp_all add: snapshot_def)

lemma restore_snapshot [simp]: "restore (snapshot db) db = db"
  by (simp add: restore_def snapshot_def)

lemma rollback_begin_nested [simp]: "rollback (begin_nested db) = db"
  by (simp add: rollback_def begin_nested_def restore_def snapshot_def)

lemma commit_nested: "savepoints db = t # ts \<Longrightarrow> commit db = db\<lparr>savepoints := ts\<rparr>"
  by (simp add: commit_def)

lemma commit_outer: "savepoints db = [] \<Longrightarrow> commit db = db\<lparr>committed := snapshot db\<rparr>"
  by (simp add: commit_def)

lemma items_of_cong: "items db' = items db \<Longrightarrow> items_of db' sid = items_of db sid"
  by (simp add: items_of_def)

lemma count_items_cong: "items db' = items db \<Longrightarrow> count_items db' sid = count_items db sid"
  by (simp add: count_items_def items_of_def)

subsection \<open>Creating items\<close>




lemma view_begin_nested [simp]:
  "items_of (begin_nested db) sid = items_of db sid"
  "count_items (begin_nested db) sid = count_items db sid"
  "max_order_index (begin_nested db) sid = max_order_index db sid"
  "next_order_index (begin_nested db) sid = next_order_index db sid"
  by (simp_all add: items_of_def count_items_def max_order_index_def next_order_index_def)

lemma commit_written:
  "commit ((begin_nested db)\<lparr>items := rows, next_item_id := n\<rparr>) = db\<lparr>items := rows, next_item_id := n\<rparr>"
  by (simp add: commit_def begin_nested_def)

text \<open>The three ways \<^verbatim>\<open>create_item\<close> ends.\<close>

lemma create_item_cases:
  fixes db data
  defines "v \<equiv> (case item_data.order_index data of
                   None \<Rightarrow> next_order_index db (item_data.spec_id data) | Some v \<Rightarrow> v)"
  shows "(\<exists>m. create_item db data = (begin_nested db, Inl (ValueError m)))
     \<or> create_item db data = (rollback db, Inl IntegrityError)
     \<or> (\<exists>c'. create_item db data =
           (commit (db\<lparr>items := items db @
                       [\<lparr>item_id = next_item_id db, spec_id = item_data.spec_id data,
                         content = c', order_index = v\<rparr>],
                      next_item_id := next_item_id db + 1\<rparr>),
            Inr \<lparr>item_id = next_item_id db, spec_id = item_data.spec_id data,
                 content = c', order_index = v\<rparr>))"
  unfolding v_def
  by (auto simp: create_item_def BaseRepository_create_Item_def Item_init_def
      validate_content_def validate_order_def validate_item_count_def Let_def commit_written
      split: sum.splits option.splits)




lemma validate_content_length_nbsp:
  "\<not> validate_content_length (Some [char_of (160 :: nat)])"
  by (simp add: eval_defs)

text \<open>
  C2. \<^verbatim>\<open>create_item\<close> without \<^verbatim>\<open>order_index\<close> should assign the largest index of the
  specification plus one. With one item at index 0 the largest index is 0, which
  \<^verbatim>\<open>or -1\<close> replaces by \<open>-1\<close>: the new item gets index 0 again, not 1.
\<close>

theorem create_item_append_after_zero:
  "max_order_index db_one 1 = Some 0
   \<and> snd (create_item db_one \<lparr>spec_id = 1, content = ''b'', order_index = None\<rparr>)
       = Inr \<lparr>item_id = 2, spec_id = 1, content = ''b'', order_index = 0\<rparr>"
  by (simp add: eval_defs)



subsection \<open>Listing items\<close>

text \<open>
  C8, as the code has it. \<^verbatim>\<open>get_by_specification\<close> always returns: its result holds
  exactly the items of the specification, in ascending order of \<^verbatim>\<open>order_index\<close>, and
  is empty when the specification has no item (as when it does not exist).
\<close>

theorem get_by_specification_sorted:
  "\<exists>xs. get_by_specification db sid = Inr xs
      \<and> sorted (map Item.order_index xs)
      \<and> mset xs = mset (items_of db sid)
      \<and> (\<forall>it \<in> set xs. Item.spec_id it = sid)
      \<and> (items_of db sid = [] \<longrightarrow> xs = [])"
  by (simp add: get_by_specification_def items_of_def)

theorem get_by_specification_sorted_witness:
  "get_by_specification db_pair 1 =
     Inr [\<lparr>item_id = 1, spec_id = 1, content = ''a'', order_index = 0\<rparr>,
          \<lparr>item_id = 2, spec_id = 1, content = ''b'', order_index = 1\<rparr>]
   \<and> items_of db_pair 7 = [] \<and> get_by_specification db_pair 7 = Inr []"
proof -
  have "items_of db_pair 7 = []"
    by (simp add: eval_defs)
  then show ?thesis
    using get_by_specification_sorted [of db_pair 7]
    by (auto simp: get_by_specification_def eval_defs)
qed

text \<open>
  C8, as the claim has it, fails: no specification has the id 7, and listing its items
  returns the empty list, not an error.
\<close>

theorem get_by_specification_missing_parent:
  "\<not> list_ex (\<lambda>s. Specification.spec_id s = 7) (specifications db_pair)
   \<and> get_by_specification db_pair 7 = Inr []"
  by (simp add: get_by_specification_def eval_defs)

subsection \<open>Deleting an item\<close>

lemmas delete_defs = delete_item_def with_for_update_first_def super_delete_def

text \<open>
  C5. Deleting the item at index 1 of three should remove it and lower the index above
  it. The code does neither. On PostgreSQL the locking query is refused and
  \<^verbatim>\<open>delete_item\<close> raises \<^verbatim>\<open>NotSupportedError\<close>; on a server that runs the query it
  raises \<^verbatim>\<open>AttributeError\<close> at \<^verbatim>\<open>super().delete\<close>. Both times the three items stay,
  at the indexes 0, 1 and 2.
\<close>

theorem delete_item_removes_nothing:
  "snd (delete_item db_three 2) = Inl NotSupportedError
   \<and> items (fst (delete_item db_three 2)) = items db_three
   \<and> snd (delete_item (db_three\<lparr>locks_outer_joins := True\<rparr>) 2) = Inl AttributeError
   \<and> items (fst (delete_item (db_three\<lparr>locks_outer_joins := True\<rparr>) 2)) = items db_three
   \<and> map Item.order_index (items db_three) = [0, 1, 2]"
  by (simp add: delete_defs eval_defs)

text \<open>
  C7. \<^verbatim>\<open>delete_item\<close> should return the parent's id for a stored item and raise the
  not-found error for an unknown id. It returns nothing: on PostgreSQL it raises
  \<^verbatim>\<open>NotSupportedError\<close> for the stored id 1 and for the unknown id 9 alike; on a
  server that runs the locking query it raises \<^verbatim>\<open>AttributeError\<close> for the stored id,
  and only there \<^verbatim>\<open>ValueError("Item not found")\<close> for the unknown one.
\<close>

theorem delete_item_never_returns:
  "delete_item db_pair 1 = (db_pair, Inl NotSupportedError)
   \<and> delete_item db_pair 9 = (db_pair, Inl NotSupportedError)
   \<and> snd (delete_item (db_pair\<lparr>locks_outer_joins := True\<rparr>) 1) = Inl AttributeError
   \<and> snd (delete_item (db_pair\<lparr>locks_outer_joins := True\<rparr>) 9)
       = Inl (ValueError ''Item not found'')"
  by (simp add: delete_defs eval_defs)

subsection \<open>Reordering the items of a specification\<close>

lemma map_of_rev_distinct:
  assumes "distinct (map fst us)"
  shows "map_of (rev us) = map_of us"
proof (rule ext)
  fix k
  have d: "distinct (map fst (rev us))" using assms by (simp add: rev_map [symmetric])
  show "map_of (rev us) k = map_of us k"
  proof (cases "map_of us k")
    case None
    then have "k \<notin> fst ` set us" by (simp add: map_of_eq_None_iff)
    then have "map_of (rev us) k = None" by (simp add: map_of_eq_None_iff)
    with None show ?thesis by simp
  next
    case (Some v)
    then have "(k, v) \<in> set us" by (rule map_of_SomeD)
    then have "map_of (rev us) k = Some v" using d by (simp add: map_of_eq_Some_iff)
    with Some show ?thesis by simp
  qed
qed

lemma fold_set_order_index:
  "fold set_order_index us rows =
     map (\<lambda>it. case map_of (rev us) (item_id it) of
                 None \<Rightarrow> it
               | Some v \<Rightarrow> it\<lparr>Item.order_index := v\<rparr>) rows"
proof (induction us rule: rev_induct)
  case Nil
  then show ?case by simp
next
  case (snoc u us)
  have "fold set_order_index (us @ [u]) rows = set_order_index u (fold set_order_index us rows)"
    by simp
  also have "\<dots> = set_order_index u
      (map (\<lambda>it. case map_of (rev us) (item_id it) of
                 None \<Rightarrow> it
               | Some v \<Rightarrow> it\<lparr>Item.order_index := v\<rparr>) rows)"
    by (simp only: snoc)
  also have "\<dots> = map (\<lambda>it. case map_of (rev (us @ [u])) (item_id it) of
                 None \<Rightarrow> it
               | Some v \<Rightarrow> it\<lparr>Item.order_index := v\<rparr>) rows"
    by (auto simp: set_order_index_def split: option.splits)
  finally show ?case .
qed

lemma matched_length:
  assumes ids: "distinct (map item_id (items db))"
  shows "length (filter (\<lambda>it. Item.spec_id it = sid \<and> item_id it \<in> set ks) (items db))
          = card (set ks \<inter> set (map item_id (items_of db sid)))"
proof -
  let ?F = "filter (\<lambda>it. Item.spec_id it = sid \<and> item_id it \<in> set ks) (items db)"
  have "distinct (map item_id ?F)"
    using ids by (rule distinct_map_filter)
  then have "card (set (map item_id ?F)) = length ?F"
    using distinct_card [of "map item_id ?F"] by simp
  moreover have "set (map item_id ?F) = set ks \<inter> set (map item_id (items_of db sid))"
    by (auto simp: items_of_def)
  ultimately show ?thesis by simp
qed

lemma matched_all_iff:
  assumes ids: "distinct (map item_id (items db))"
  shows "length (filter (\<lambda>it. Item.spec_id it = sid \<and> item_id it \<in> set ks) (items db)) = length ks
     \<longleftrightarrow> distinct ks \<and> set ks \<subseteq> set (map item_id (items_of db sid))"
proof -
  let ?I = "set (map item_id (items_of db sid))"
  have le1: "card (set ks \<inter> ?I) \<le> card (set ks)"
    by (rule card_mono) auto
  have le2: "card (set ks) \<le> length ks"
    by (rule card_length)
  show ?thesis
  proof
    assume "length (filter (\<lambda>it. Item.spec_id it = sid \<and> item_id it \<in> set ks) (items db)) = length ks"
    then have eq: "card (set ks \<inter> ?I) = length ks"
      by (simp add: matched_length [OF ids])
    with le1 le2 have c: "card (set ks) = length ks" and c': "card (set ks \<inter> ?I) = card (set ks)"
      by simp_all
    from c have "distinct ks" by (rule card_distinct)
    moreover have "set ks \<inter> ?I = set ks"
      by (rule card_subset_eq) (use c' in auto)
    ultimately show "distinct ks \<and> set ks \<subseteq> ?I" by auto
  next
    assume a: "distinct ks \<and> set ks \<subseteq> ?I"
    then have "set ks \<inter> ?I = set ks" by auto
    with a show "length (filter (\<lambda>it. Item.spec_id it = sid \<and> item_id it \<in> set ks) (items db)) = length ks"
      by (simp add: matched_length [OF ids] distinct_card)
  qed
qed

lemma fold_set_order_index_distinct:
  "distinct (map fst us) \<Longrightarrow> fold set_order_index us rows = map (assigned us) rows"
  by (simp add: fold_set_order_index map_of_rev_distinct assigned_def [abs_def])

lemma bulk_updates_fold:
  "bulk_updates us rows =
     (if \<forall>u \<in> set us. INTEGER (snd u) then Inr (fold set_order_index us rows) else Inl DataError)"
  by (induction us arbitrary: rows) auto

lemma commit_rows:
  "commit ((begin_nested db)\<lparr>items := rows\<rparr>) = db\<lparr>items := rows\<rparr>"
  by (simp add: commit_def begin_nested_def)

text \<open>The three ways \<^verbatim>\<open>update_order\<close> ends, in a database whose item ids are unique.\<close>

lemma update_order_outcome:
  assumes ids: "distinct (map item_id (items db))"
  shows "ItemRepository_update_order db sid us =
     (if \<not> (distinct (map fst us) \<and> set (map fst us) \<subseteq> set (map item_id (items_of db sid)))
      then (begin_nested db, Inl (ValueError ''Invalid item IDs in order update request''))
      else if \<not> (\<forall>u \<in> set us. INTEGER (snd u))
      then (db, Inl DataError)
      else (db\<lparr>items := map (assigned us) (items db)\<rparr>,
            get_by_specification (db\<lparr>items := map (assigned us) (items db)\<rparr>) sid))"
proof -
  have "length (filter (\<lambda>it. Item.spec_id it = sid \<and> item_id it \<in> set (map fst us)) (items db))
          = length us
        \<longleftrightarrow> distinct (map fst us) \<and> set (map fst us) \<subseteq> set (map item_id (items_of db sid))"
    using matched_all_iff [OF ids, of sid "map fst us"] by simp
  then show ?thesis
    by (simp add: ItemRepository_update_order_def Let_def bulk_updates_fold
        fold_set_order_index_distinct commit_rows)
qed

text \<open>
  C3, as the code has it. In a session whose item ids are unique,
  \<^verbatim>\<open>ItemRepository.update_order\<close> raises
  \<^verbatim>\<open>ValueError("Invalid item IDs in order update request")\<close> exactly when the supplied
  item ids are not pairwise distinct or one of them is not the id of an item of the
  specification; it has then written nothing. The supplied indexes are not checked by
  the code. When the ids pass and an index does not fit the \<^verbatim>\<open>Integer\<close> column, the
  server refuses the statement: \<^verbatim>\<open>DataError\<close>, and the rollback leaves the session as
  it was. When the ids pass and every index fits, every named item gets its supplied
  index, every other row stays as it was, and the listing of the specification is
  returned; the writes are in the session's open transaction, the one \<^verbatim>\<open>commit()\<close>
  having released the savepoint only, so the committed tables are as before.
\<close>

theorem update_order_validation:
  assumes ids: "distinct (map item_id (items db))"
  shows "(snd (ItemRepository_update_order db sid us)
            = Inl (ValueError ''Invalid item IDs in order update request'')
          \<longleftrightarrow> \<not> (distinct (map fst us)
                   \<and> set (map fst us) \<subseteq> set (map item_id (items_of db sid))))
     \<and> (\<not> (distinct (map fst us)
              \<and> set (map fst us) \<subseteq> set (map item_id (items_of db sid))) \<longrightarrow>
          items (fst (ItemRepository_update_order db sid us)) = items db
          \<and> committed (fst (ItemRepository_update_order db sid us)) = committed db)
     \<and> (distinct (map fst us) \<and> set (map fst us) \<subseteq> set (map item_id (items_of db sid))
          \<and> \<not> (\<forall>u \<in> set us. INTEGER (snd u)) \<longrightarrow>
          ItemRepository_update_order db sid us = (db, Inl DataError))
     \<and> (distinct (map fst us) \<and> set (map fst us) \<subseteq> set (map item_id (items_of db sid))
          \<and> (\<forall>u \<in> set us. INTEGER (snd u)) \<longrightarrow>
          (\<exists>db'. ItemRepository_update_order db sid us = (db', get_by_specification db' sid)
             \<and> items db' =
                 map (\<lambda>it. case map_of us (item_id it) of
                             None \<Rightarrow> it
                           | Some v \<Rightarrow> it\<lparr>Item.order_index := v\<rparr>) (items db)
             \<and> committed db' = committed db
             \<and> savepoints db' = savepoints db))"
  by (simp add: update_order_outcome [OF ids] get_by_specification_def assigned_def [abs_def])

theorem update_order_validation_witness:
  "distinct (map item_id (items db_pair))
   \<and> snd (ItemRepository_update_order db_pair 1 [(1, 1), (3, 0)])
       = Inl (ValueError ''Invalid item IDs in order update request'')
   \<and> items (fst (ItemRepository_update_order db_pair 1 [(1, 1), (3, 0)])) = items db_pair
   \<and> snd (ItemRepository_update_order db_pair 1 [(1, 1), (1, 0)])
       = Inl (ValueError ''Invalid item IDs in order update request'')
   \<and> ItemRepository_update_order db_pair 1 [(1, 0), (2, 2147483648)] = (db_pair, Inl DataError)
   \<and> (\<exists>db'. ItemRepository_update_order db_pair 1 [(2, 0), (1, 1)]
               = (db', get_by_specification db' 1)
          \<and> map Item.order_index (items db') = [1, 0, 0]
          \<and> map Item.order_index (stored_items (committed db')) = [0, 1, 0])"
proof -
  have ids: "distinct (map item_id (items db_pair))"
    by (simp add: db_pair_def connect_def)
  have of1: "set (map item_id (items_of db_pair 1)) = {1, 2}"
    by (auto simp: db_pair_def connect_def items_of_def)
  have a: "snd (ItemRepository_update_order db_pair 1 [(1, 1), (3, 0)])
       = Inl (ValueError ''Invalid item IDs in order update request'')
     \<and> items (fst (ItemRepository_update_order db_pair 1 [(1, 1), (3, 0)])) = items db_pair"
    using update_order_validation [OF ids, of 1 "[(1, 1), (3, 0)]"] of1 by simp
  have b: "snd (ItemRepository_update_order db_pair 1 [(1, 1), (1, 0)])
       = Inl (ValueError ''Invalid item IDs in order update request'')"
    using update_order_validation [OF ids, of 1 "[(1, 1), (1, 0)]"] by simp
  have c: "ItemRepository_update_order db_pair 1 [(1, 0), (2, 2147483648)] = (db_pair, Inl DataError)"
    using update_order_validation [OF ids, of 1 "[(1, 0), (2, 2147483648)]"] of1
    by (simp add: INTEGER_def)
  have d: "\<exists>db'. ItemRepository_update_order db_pair 1 [(2, 0), (1, 1)]
               = (db', get_by_specification db' 1)
          \<and> map Item.order_index (items db') = [1, 0, 0]
          \<and> map Item.order_index (stored_items (committed db')) = [0, 1, 0]"
    using update_order_validation [OF ids, of 1 "[(2, 0), (1, 1)]"] of1
    by (auto simp: INTEGER_def db_pair_def connect_def)
  show ?thesis using ids a b c d by simp
qed

text \<open>
  C3, as the claim has it, fails: specification 1 has two items and the request gives
  both the index 5, which is no permutation of \<open>{0, 1}\<close>; the request is applied.
\<close>

theorem update_order_accepts_any_index:
  "fst (ItemRepository_update_order db_pair 1 [(1, 5), (2, 5)]) =
      db_pair\<lparr>items := [\<lparr>item_id = 1, spec_id = 1, content = ''a'', order_index = 5\<rparr>,
              \<lparr>item_id = 2, spec_id = 1, content = ''b'', order_index = 5\<rparr>,
              \<lparr>item_id = 3, spec_id = 2, content = ''c'', order_index = 0\<rparr>]\<rparr>
   \<and> snd (ItemRepository_update_order db_pair 1 [(1, 5), (2, 5)]) =
       Inr [\<lparr>item_id = 1, spec_id = 1, content = ''a'', order_index = 5\<rparr>,
              \<lparr>item_id = 2, spec_id = 1, content = ''b'', order_index = 5\<rparr>]"
  by (simp add: run_defs eval_defs)

subsection \<open>The dense-index invariant\<close>

lemma sorted_map_int_upt: "sorted (map int [0..<n])"
  by (simp add: sorted_map sorted_wrt_iff_nth_less)

lemma sort_eq_range_iff_mset:
  "sort xs = map int [0..<n] \<longleftrightarrow> mset xs = mset (map int [0..<n])"
proof
  assume "sort xs = map int [0..<n]"
  then have "mset (sort xs) = mset (map int [0..<n])" by simp
  then show "mset xs = mset (map int [0..<n])" by simp
next
  assume "mset xs = mset (map int [0..<n])"
  then show "sort xs = map int [0..<n]"
    using sorted_map_int_upt [of n] by (metis properties_for_sort)
qed

lemma range_iff_distinct_set:
  "mset xs = mset (map int [0..<length xs]) \<longleftrightarrow>
     distinct xs \<and> set xs = {0..<int (length xs)}"
proof -
  have d: "distinct (map int [0..<length xs])"
    by (simp add: distinct_map)
  have s: "set (map int [0..<length xs]) = {0..<int (length xs)}"
    using image_int_atLeastLessThan [of 0 "length xs"] by simp
  show ?thesis
  proof
    assume eq: "mset xs = mset (map int [0..<length xs])"
    from mset_eq_imp_distinct_iff [OF eq] d have "distinct xs" by simp
    moreover from mset_eq_setD [OF eq] s have "set xs = {0..<int (length xs)}" by simp
    ultimately show "distinct xs \<and> set xs = {0..<int (length xs)}" by simp
  next
    assume a: "distinct xs \<and> set xs = {0..<int (length xs)}"
    then have "set xs = set (map int [0..<length xs])" using s by simp
    with a d show "mset xs = mset (map int [0..<length xs])"
      using set_eq_iff_mset_eq_distinct [of xs "map int [0..<length xs]"] by blast
  qed
qed

lemma dense_list_iff:
  "sort xs = map int [0..<length xs] \<longleftrightarrow> distinct xs \<and> set xs = {0..<int (length xs)}"
  using sort_eq_range_iff_mset [of xs "length xs"] range_iff_distinct_set [of xs] by blast

lemma dense_listI:
  assumes "distinct ys" and "set ys = {0..<m}" and "0 \<le> m"
  shows "sort ys = map int [0..<length ys]"
proof -
  have "card (set ys) = length ys" using assms(1) by (rule distinct_card)
  then have "int (length ys) = m" using assms(2,3) by simp
  with assms show ?thesis by (simp add: dense_list_iff)
qed

lemma dense_list_append:
  assumes "sort xs = map int [0..<length xs]"
  shows "sort (xs @ [int (length xs)]) = map int [0..<length (xs @ [int (length xs)])]"
proof (rule dense_listI)
  from assms have a: "distinct xs" "set xs = {0..<int (length xs)}"
    by (simp_all add: dense_list_iff)
  show "distinct (xs @ [int (length xs)])" using a by simp
  show "set (xs @ [int (length xs)]) = {0..<int (length xs) + 1}" using a by auto
  show "0 \<le> int (length xs) + 1" by simp
qed

lemma dense_distinct: "dense db sid \<Longrightarrow> distinct (order_indexes db sid)"
  by (simp add: dense_def dense_list_iff)

lemma same_id_same_item:
  assumes "distinct (map item_id (items db))" "j \<in> set (items db)" "k \<in> set (items db)"
    "item_id j = item_id k"
  shows "j = k"
  using assms by (meson distinct_map inj_onD)

lemma items_of_subset: "j \<in> set (items_of db sid) \<Longrightarrow> j \<in> set (items db) \<and> Item.spec_id j = sid"
  by (simp add: items_of_def)

lemma max_order_index_Max:
  assumes "order_indexes db sid \<noteq> []"
  shows "max_order_index db sid = Some (Max (set (order_indexes db sid)))"
proof (cases "order_indexes db sid")
  case Nil
  with assms show ?thesis by simp
next
  case (Cons x xs)
  have "fold max xs x = Max (set (x # xs))"
    by (simp only: Max.set_eq_fold)
  with Cons show ?thesis
    by (simp add: max_order_index_def order_indexes_def)
qed

lemma next_order_index_dense:
  assumes d: "dense db sid" and n1: "count_items db sid \<noteq> 1"
  shows "next_order_index db sid = count_items db sid"
proof (cases "order_indexes db sid = []")
  case True
  then have "items_of db sid = []" by (simp add: order_indexes_def)
  then show ?thesis
    by (simp add: next_order_index_def max_order_index_def py_or_def count_items_def)
next
  case False
  let ?n = "int (length (order_indexes db sid))"
  have len: "count_items db sid = ?n"
    by (simp add: count_items_def order_indexes_def)
  from False have "length (order_indexes db sid) \<noteq> 0" by simp
  with n1 len have two: "2 \<le> ?n" by linarith
  from d have s: "set (order_indexes db sid) = {0..<?n}"
    by (simp add: dense_def dense_list_iff)
  have "Max {0..<?n} = ?n - 1"
    by (rule Max_eqI) (use two in auto)
  with s max_order_index_Max [OF False] have "max_order_index db sid = Some (?n - 1)"
    by simp
  with two len show ?thesis
    by (simp add: next_order_index_def py_or_def)
qed

lemma assigned_spec_id [simp]: "Item.spec_id (assigned us j) = Item.spec_id j"
  by (simp add: assigned_def split: option.splits)

lemma assigned_item_id [simp]: "item_id (assigned us j) = item_id j"
  by (simp add: assigned_def split: option.splits)

lemma items_of_assigned:
  "items_of (db\<lparr>items := map (assigned us) (items db)\<rparr>) s = map (assigned us) (items_of db s)"
  by (simp add: items_of_def filter_map o_def)

lemma assigned_unnamed:
  assumes "item_id j \<notin> set (map fst us)"
  shows "assigned us j = j"
proof -
  from assms have "map_of us (item_id j) = None"
    by (simp add: map_of_eq_None_iff)
  then show ?thesis by (simp add: assigned_def)
qed

lemma mset_sort_eq: "mset xs = mset ys \<Longrightarrow> sort xs = sort (ys :: int list)"
  by (metis mset_sort properties_for_sort sorted_sort)

lemma order_indexes_assigned:
  assumes ids: "distinct (map item_id (items db))"
    and dist: "distinct (map fst us)"
    and cover: "set (map fst us) = set (map item_id (items_of db sid))"
  shows "mset (order_indexes (db\<lparr>items := map (assigned us) (items db)\<rparr>) sid)
           = mset (map snd us)"
proof -
  let ?I = "items_of db sid"
  let ?g = "\<lambda>k. the (map_of us k)"
  have dI: "distinct (map item_id ?I)"
    unfolding items_of_def using ids by (rule distinct_map_filter)
  have ms: "mset (map item_id ?I) = mset (map fst us)"
    using set_eq_iff_mset_eq_distinct [OF dI dist] cover by simp
  have "order_indexes (db\<lparr>items := map (assigned us) (items db)\<rparr>) sid
          = map (\<lambda>j. Item.order_index (assigned us j)) ?I"
    by (simp add: order_indexes_def items_of_assigned o_def)
  also have "\<dots> = map (\<lambda>j. ?g (item_id j)) ?I"
  proof (rule map_cong [OF refl])
    fix j assume "j \<in> set ?I"
    then have "item_id j \<in> set (map fst us)" using cover by simp
    then obtain v where v: "(item_id j, v) \<in> set us" by auto
    then have "map_of us (item_id j) = Some v" using dist by simp
    then show "Item.order_index (assigned us j) = ?g (item_id j)"
      by (simp add: assigned_def)
  qed
  also have "\<dots> = map ?g (map item_id ?I)" by (simp add: o_def)
  finally have "mset (order_indexes (db\<lparr>items := map (assigned us) (items db)\<rparr>) sid)
      = mset (map ?g (map item_id ?I))" by (rule arg_cong)
  also have "\<dots> = image_mset ?g (mset (map item_id ?I))" by (simp only: mset_map)
  also have "\<dots> = image_mset ?g (mset (map fst us))" by (simp only: ms)
  also have "\<dots> = mset (map ?g (map fst us))" by (simp only: mset_map)
  also have "map ?g (map fst us) = map snd us"
  proof -
    have "map (\<lambda>u. ?g (fst u)) us = map snd us"
    proof (rule map_cong [OF refl])
      fix u assume "u \<in> set us"
      then have "(fst u, snd u) \<in> set us" by simp
      then have "map_of us (fst u) = Some (snd u)" using dist by (simp only: map_of_eq_Some_iff)
      then show "?g (fst u) = snd u" by simp
    qed
    then show ?thesis by (simp add: o_def)
  qed
  finally show ?thesis .
qed

lemma dense_cong: "items db' = items db \<Longrightarrow> dense db' sid = dense db sid"
  by (simp add: dense_def order_indexes_def items_of_def)

lemma dense_append:
  assumes d: "dense db sid" and i: "items db' = items db @ [row]"
    and ok: "Item.spec_id row = sid \<longrightarrow> Item.order_index row = count_items db sid"
  shows "dense db' sid"
proof (cases "Item.spec_id row = sid")
  case False
  then have "order_indexes db' sid = order_indexes db sid"
    by (simp add: i order_indexes_def items_of_def)
  with d show ?thesis by (simp add: dense_def)
next
  case True
  with ok have "Item.order_index row = int (length (order_indexes db sid))"
    by (simp add: count_items_def order_indexes_def)
  with True have "order_indexes db' sid
      = order_indexes db sid @ [int (length (order_indexes db sid))]"
    by (simp add: i order_indexes_def items_of_def)
  moreover from d have "sort (order_indexes db sid) = map int [0..<length (order_indexes db sid)]"
    by (simp add: dense_def)
  ultimately show ?thesis
    using dense_list_append [of "order_indexes db sid"] by (simp add: dense_def)
qed

lemma dense_assigned_same:
  assumes ids: "distinct (map item_id (items db))"
    and dist: "distinct (map fst us)"
    and cover: "set (map fst us) = set (map item_id (items_of db sid))"
    and perm: "sort (map snd us) = map int [0..<length us]"
  shows "dense (db\<lparr>items := map (assigned us) (items db)\<rparr>) sid"
proof -
  let ?db' = "db\<lparr>items := map (assigned us) (items db)\<rparr>"
  have ms: "mset (order_indexes ?db' sid) = mset (map snd us)"
    by (rule order_indexes_assigned [OF ids dist cover])
  then have "length (order_indexes ?db' sid) = length us"
    using mset_eq_length by fastforce
  moreover from ms have "sort (order_indexes ?db' sid) = sort (map snd us)"
    by (rule mset_sort_eq)
  ultimately show ?thesis using perm by (simp add: dense_def)
qed

lemma dense_assigned_other:
  assumes d: "dense db sid" and ids: "distinct (map item_id (items db))"
    and sub: "set (map fst us) \<subseteq> set (map item_id (items_of db sid'))"
    and other: "sid' \<noteq> sid"
  shows "dense (db\<lparr>items := map (assigned us) (items db)\<rparr>) sid"
proof -
  have "map (assigned us) (items_of db sid) = items_of db sid"
  proof (rule map_idI)
    fix j assume j: "j \<in> set (items_of db sid)"
    have "item_id j \<notin> set (map fst us)"
    proof
      assume "item_id j \<in> set (map fst us)"
      with sub obtain k where k: "k \<in> set (items_of db sid')" "item_id k = item_id j" by auto
      with same_id_same_item [OF ids, of j k] items_of_subset [OF j] items_of_subset [OF k(1)]
      have "j = k" by simp
      with items_of_subset [OF j] items_of_subset [OF k(1)] other show False by simp
    qed
    then show "assigned us j = j" by (rule assigned_unnamed)
  qed
  then have "order_indexes (db\<lparr>items := map (assigned us) (items db)\<rparr>) sid = order_indexes db sid"
    by (simp add: order_indexes_def items_of_assigned)
  with d show ?thesis by (simp add: dense_def)
qed

lemma well_indexed_mono:
  assumes "well_indexed db" and "items db' = items db" and "next_item_id db \<le> next_item_id db'"
  shows "well_indexed db'"
  using assms dense_cong [of db' db]
  by (fastforce simp: well_indexed_def unique_ids_def)

lemma consistent_begin_nested: "consistent db \<Longrightarrow> consistent (begin_nested db)"
  by (auto simp: consistent_def intro: well_indexed_mono)

lemma consistent_commit: "consistent db \<Longrightarrow> consistent (commit db)"
  by (cases "savepoints db") (auto simp: consistent_def commit_def intro: well_indexed_mono)

lemma consistent_rollback: "consistent db \<Longrightarrow> consistent (rollback db)"
  by (cases "savepoints db") (auto simp: consistent_def rollback_def intro: well_indexed_mono)

lemma consistent_write:
  assumes c: "consistent db"
    and w: "well_indexed (db\<lparr>items := rows, next_item_id := n\<rparr>)"
    and n: "next_item_id db \<le> n"
  shows "consistent (db\<lparr>items := rows, next_item_id := n\<rparr>)"
  using c w n by (auto simp: consistent_def intro: well_indexed_mono)

lemma well_indexed_create:
  assumes w: "well_indexed db"
    and row: "item_id row = next_item_id db"
    and ok: "Item.order_index row = count_items db (Item.spec_id row)"
  shows "well_indexed (db\<lparr>items := items db @ [row], next_item_id := next_item_id db + 1\<rparr>)"
proof -
  let ?db' = "db\<lparr>items := items db @ [row], next_item_id := next_item_id db + 1\<rparr>"
  from w have u: "unique_ids db" and d: "\<forall>sid. dense db sid"
    by (simp_all add: well_indexed_def)
  have "unique_ids ?db'"
    using u row by (fastforce simp: unique_ids_def)
  moreover have "dense ?db' sid" for sid
  proof (rule dense_append)
    from d show "dense db sid" ..
    show "items ?db' = items db @ [row]" by simp
    from ok show "Item.spec_id row = sid \<longrightarrow> Item.order_index row = count_items db sid" by auto
  qed
  ultimately show ?thesis by (simp add: well_indexed_def)
qed

lemma well_indexed_assigned:
  assumes w: "well_indexed db"
    and dist: "distinct (map fst us)"
    and cover: "set (map fst us) = set (map item_id (items_of db sid))"
    and perm: "sort (map snd us) = map int [0..<length us]"
  shows "well_indexed (db\<lparr>items := map (assigned us) (items db)\<rparr>)"
proof -
  let ?db' = "db\<lparr>items := map (assigned us) (items db)\<rparr>"
  from w have u: "unique_ids db" and d: "\<forall>s. dense db s"
    by (simp_all add: well_indexed_def)
  from u have ids: "distinct (map item_id (items db))"
    by (simp add: unique_ids_def)
  have c: "item_id \<circ> assigned us = item_id"
    by (rule ext) simp
  have "unique_ids ?db'"
    using u by (auto simp: unique_ids_def c)
  moreover have "dense ?db' s" for s
  proof (cases "s = sid")
    case True
    with dense_assigned_same [OF ids dist cover perm] show ?thesis by simp
  next
    case False
    from d have "dense db s" ..
    moreover from cover have "set (map fst us) \<subseteq> set (map item_id (items_of db sid))" by simp
    ultimately show ?thesis
      using False by (intro dense_assigned_other [OF _ ids, of s us sid]) auto
  qed
  ultimately show ?thesis by (simp add: well_indexed_def)
qed

lemma perform_consistent:
  assumes c: "consistent db" and k: "keeps_order db r"
  shows "consistent (perform db r)"
proof (cases r)
  case (Create data)
  let ?v = "case item_data.order_index data of
              None \<Rightarrow> next_order_index db (item_data.spec_id data) | Some v \<Rightarrow> v"
  from c have w: "well_indexed db" by (simp add: consistent_def)
  then have d: "dense db (item_data.spec_id data)" by (simp add: well_indexed_def)
  have v: "?v = count_items db (item_data.spec_id data)"
    using k Create next_order_index_dense [OF d] by (auto split: option.splits)
  from create_item_cases [of db data]
  consider (refused) "fst (create_item db data) = begin_nested db"
    | (failed) "fst (create_item db data) = rollback db"
    | (stored) c' where "fst (create_item db data) =
         commit (db\<lparr>items := items db @
                       [\<lparr>item_id = next_item_id db, spec_id = item_data.spec_id data,
                         content = c', order_index = ?v\<rparr>],
                      next_item_id := next_item_id db + 1\<rparr>)"
    by fastforce
  then have "consistent (fst (create_item db data))"
  proof cases
    case refused
    with c show ?thesis by (simp add: consistent_begin_nested)
  next
    case failed
    with c show ?thesis by (simp add: consistent_rollback)
  next
    case stored
    let ?row = "\<lparr>item_id = next_item_id db, spec_id = item_data.spec_id data,
                  content = c', order_index = ?v\<rparr>"
    have "well_indexed (db\<lparr>items := items db @ [?row], next_item_id := next_item_id db + 1\<rparr>)"
      by (rule well_indexed_create [OF w]) (simp_all add: v)
    then have "consistent (db\<lparr>items := items db @ [?row], next_item_id := next_item_id db + 1\<rparr>)"
      by (rule consistent_write [OF c]) simp
    then show ?thesis unfolding stored by (rule consistent_commit)
  qed
  with Create show ?thesis by simp
next
  case (Reorder sid us)
  from c have w: "well_indexed db" by (simp add: consistent_def)
  then have ids: "distinct (map item_id (items db))"
    by (simp add: well_indexed_def unique_ids_def)
  from k Reorder have cover: "set (map fst us) = set (map item_id (items_of db sid))"
    and perm: "sort (map snd us) = map int [0..<length us]" by simp_all
  have "consistent (fst (ItemRepository_update_order db sid us))"
  proof (cases "distinct (map fst us)")
    case False
    then have "fst (ItemRepository_update_order db sid us) = begin_nested db"
      by (simp add: update_order_outcome [OF ids])
    with c show ?thesis by (simp add: consistent_begin_nested)
  next
    case True
    show ?thesis
    proof (cases "\<forall>u \<in> set us. INTEGER (snd u)")
      case False
      with True cover have "fst (ItemRepository_update_order db sid us) = db"
        by (simp add: update_order_outcome [OF ids])
      with c show ?thesis by simp
    next
      case int: True
      with True cover have r: "fst (ItemRepository_update_order db sid us)
          = db\<lparr>items := map (assigned us) (items db)\<rparr>"
        by (simp add: update_order_outcome [OF ids])
      have "well_indexed (db\<lparr>items := map (assigned us) (items db)\<rparr>)"
        by (rule well_indexed_assigned [OF w True cover perm])
      then have "well_indexed (db\<lparr>items := map (assigned us) (items db),
                                  next_item_id := next_item_id db\<rparr>)"
        by simp
      from consistent_write [OF c this] show ?thesis
        by (simp add: r)
    qed
  qed
  with Reorder show ?thesis by simp
qed

text \<open>
  C1, as the code has it. Take a consistent session: unique item ids and every
  specification dense, in the tables as the session reads them, as committed, and as
  every open savepoint holds them. Run any sequence of \<^verbatim>\<open>create_item\<close> and
  \<^verbatim>\<open>update_order\<close> calls, returning or raising, in which every creation appends
  (\<open>keeps_order\<close>: no index given and the specification does not hold exactly one
  item, or the index given is the current count) and every reordering names every item
  of its specification with indexes that are a permutation of \<open>0, \<dots>, count - 1\<close>.
  Then the session is consistent again: every specification is dense in what the
  session reads and in what is committed.
\<close>

theorem dense_after_run:
  assumes "consistent db" and "all_keep_order db rs"
  shows "consistent (run db rs)
     \<and> (\<forall>sid. dense (run db rs) sid)
     \<and> (\<forall>sid. dense (restore (committed (run db rs)) (run db rs)) sid)"
proof -
  have "consistent (run db rs)"
    using assms
  proof (induction rs arbitrary: db)
    case Nil
    then show ?case by simp
  next
    case (Cons r rs)
    from Cons.prems have k: "keeps_order db r" and rest: "all_keep_order (perform db r) rs"
      by simp_all
    from perform_consistent [OF Cons.prems(1) k] have "consistent (perform db r)" .
    from Cons.IH [OF this rest] show ?case by simp
  qed
  then show ?thesis
    by (simp add: consistent_def well_indexed_def)
qed

lemma run_requests:
  "run db_pair requests =
     connect [''u''] [\<lparr>project_id = 1, title = ''p'', owner_id = ''u''\<rparr>]
       [\<lparr>Specification.spec_id = 1, project_id = 1, content = ''s'', order_index = 0\<rparr>,
        \<lparr>Specification.spec_id = 2, project_id = 1, content = ''t'', order_index = 1\<rparr>]
       [\<lparr>item_id = 1, spec_id = 1, content = ''a'', order_index = 2\<rparr>,
        \<lparr>item_id = 2, spec_id = 1, content = ''b'', order_index = 0\<rparr>,
        \<lparr>item_id = 3, spec_id = 2, content = ''c'', order_index = 0\<rparr>,
        \<lparr>item_id = 4, spec_id = 1, content = ''d'', order_index = 1\<rparr>,
        \<lparr>item_id = 5, spec_id = 2, content = ''e'', order_index = 1\<rparr>] 2 6"
  by (simp add: run_defs eval_defs)

theorem dense_after_run_witness:
  "consistent db_pair \<and> all_keep_order db_pair requests
   \<and> order_indexes (run db_pair requests) 1 = [2, 0, 1]
   \<and> order_indexes (run db_pair requests) 2 = [0, 1]
   \<and> stored_items (committed (run db_pair requests)) = items (run db_pair requests)
   \<and> dense (run db_pair requests) 1 \<and> dense (run db_pair requests) 2"
proof -
  have d: "dense db_pair sid" for sid
    by (simp add: dense_def order_indexes_def items_of_def db_pair_def connect_def)
  have u: "unique_ids db_pair"
    by (simp add: unique_ids_def db_pair_def connect_def)
  have r: "restore (committed db_pair) db_pair = db_pair"
    by (simp add: db_pair_def connect_def restore_def)
  have c: "consistent db_pair"
    using d u r by (simp add: consistent_def well_indexed_def) (simp add: db_pair_def connect_def)
  have k: "all_keep_order db_pair requests"
    by (simp add: run_defs eval_defs)
  have o: "order_indexes (run db_pair requests) 1 = [2, 0, 1]"
    "order_indexes (run db_pair requests) 2 = [0, 1]"
    "stored_items (committed (run db_pair requests)) = items (run db_pair requests)"
    unfolding run_requests by (simp_all add: order_indexes_def items_of_def connect_def)
  from dense_after_run [OF c k] have "dense (run db_pair requests) 1"
    "dense (run db_pair requests) 2" by simp_all
  with c k o show ?thesis by simp
qed

text \<open>
  C1, as the claim has it, fails: \<^verbatim>\<open>create_item\<close> stores the index it is given. On a
  specification whose one item has index 0, a creation with index 7 succeeds and leaves
  the indexes 0 and 7.
\<close>

theorem create_item_explicit_index_gap:
  "dense db_one 1
   \<and> snd (create_item db_one \<lparr>spec_id = 1, content = ''b'', order_index = Some 7\<rparr>)
       = Inr \<lparr>item_id = 2, spec_id = 1, content = ''b'', order_index = 7\<rparr>
   \<and> order_indexes (fst (create_item db_one \<lparr>spec_id = 1, content = ''b'', order_index = Some 7\<rparr>)) 1
       = [0, 7]
   \<and> \<not> dense (fst (create_item db_one \<lparr>spec_id = 1, content = ''b'', order_index = Some 7\<rparr>)) 1"
  by (simp add: dense_def order_indexes_def eval_defs)

subsection \<open>Creating projects\<close>

text \<open>
  C10. \<^verbatim>\<open>create_project\<close> should refuse an owner who has 100 projects with
  \<^verbatim>\<open>ValueError(MAX_ITEMS_REACHED)\<close> and create the project otherwise. It does neither:
  \<^verbatim>\<open>get_by_owner\<close> raises \<^verbatim>\<open>InvalidRequestError\<close> before the count is looked at, for the
  owner of 100 projects and for the owner of one alike, and nothing is stored. Behind
  that call, \<^verbatim>\<open>Project.__init__\<close> raises \<^verbatim>\<open>TypeError\<close> on a valid title.
\<close>

theorem create_project_never_creates:
  "create_project (\<lambda>s. s) db_hundred ''u'' ''new'' = (db_hundred, Inl InvalidRequestError)
   \<and> length (filter (\<lambda>p. owner_id p = ''u'') (projects db_hundred)) = 100
   \<and> create_project (\<lambda>s. s) db_one ''u'' ''new'' = (db_one, Inl InvalidRequestError)
   \<and> length (filter (\<lambda>p. owner_id p = ''u'') (projects db_one)) = 1
   \<and> Project_init (\<lambda>s. s) ''new'' ''u'' = Inl TypeError"
  by (simp add: create_project_def get_by_owner_def all_joinedload_dynamic_def Project_init_def
      validate_title_def title_hook_def MAX_TITLE_LENGTH_def
      db_hundred_def hundred_projects_def db_one_def connect_def rollback_def restore_def
      filter_map o_def)

subsection \<open>Moving one specification\<close>

text \<open>
  C6. Moving specification 5 of project 1 from index 4 to index 1 should shift the
  specifications at 1, 2 and 3 up by one. On PostgreSQL the locking query of
  \<^verbatim>\<open>update_order\<close> is refused: the call raises \<^verbatim>\<open>NotSupportedError\<close> and the five
  specifications stay at the indexes 0 to 4, although the specification exists and
  belongs to the owner.
\<close>

theorem update_order_refused_by_server:
  "SpecificationRepository_update_order db_five 5 1 ''u'' = (db_five, Inl NotSupportedError)
   \<and> map Specification.order_index (specifications db_five) = [0, 1, 2, 3, 4]
   \<and> find (\<lambda>s. Specification.spec_id s = 5 \<and> owned_by db_five ''u'' s) (specifications db_five)
       = Some \<lparr>Specification.spec_id = 5, project_id = 1, content = ''s'', order_index = 4\<rparr>"
  by (simp add: SpecificationRepository_update_order_def with_for_update_first_def owned_by_def
      db_five_def five_specifications_def connect_def begin_nested_def rollback_def
      restore_def snapshot_def)

text \<open>
  On a server that runs the locking query the same call moves the rows as intended, in
  the session's open transaction only: the committed rows keep their indexes.
\<close>

lemma update_order_moves_uncommitted:
  "map Specification.order_index
     (specifications (fst (SpecificationRepository_update_order
        (db_five\<lparr>locks_outer_joins := True\<rparr>) 5 1 ''u''))) = [0, 2, 3, 4, 1]
   \<and> map Specification.order_index
         (stored_specifications (committed (fst (SpecificationRepository_update_order
            (db_five\<lparr>locks_outer_joins := True\<rparr>) 5 1 ''u'')))) = [0, 1, 2, 3, 4]"
  by (simp add: SpecificationRepository_update_order_def with_for_update_first_def owned_by_def
      db_five_def five_specifications_def connect_def begin_nested_def commit_def
      snapshot_def reorder_def Specification_validate_order_index_def validate_order_index_def
      move_up_def move_down_def Let_def)

subsection \<open>The range of an order index\<close>

text \<open>
  C9. For every integer \<open>n\<close>, \<^verbatim>\<open>validate_order_index(n)\<close> is true exactly when
  \<open>0 \<le> n \<le> 1000000\<close>. Hence \<^verbatim>\<open>Item.validate_order\<close> and, for a Specification,
  \<^verbatim>\<open>_validate_order_index\<close> and \<^verbatim>\<open>reorder\<close> accept every index in \<open>(1000, 1000000]\<close>
  and refuse exactly the indexes outside \<open>[0, 1000000]\<close>, although \<^verbatim>\<open>MAX_ORDER_INDEX\<close>
  is 1000 and both messages raised on refusal name the range 0 to 1000.
\<close>

theorem validate_order_index_range:
  "validate_order_index (Some n) = (0 \<le> n \<and> n \<le> 1000000)
   \<and> (MAX_ORDER_INDEX < n \<and> n \<le> 1000000 \<longrightarrow> validate_order (Some n) = Inr n)
   \<and> (validate_order (Some n) = Inl (ValueError INVALID_ORDER_INDEX) \<longleftrightarrow> n < 0 \<or> 1000000 < n)
   \<and> (MAX_ORDER_INDEX < n \<and> n \<le> 1000000 \<longrightarrow>
        Specification_validate_order_index n = Inr n
        \<and> reorder spec n = Inr (spec\<lparr>Specification.order_index := n\<rparr>))
   \<and> (reorder spec n = Inl (ValueError ''Order index must be between 0 and 1000'')
        \<longleftrightarrow> n < 0 \<or> 1000000 < n)
   \<and> MAX_ORDER_INDEX = 1000
   \<and> INVALID_ORDER_INDEX = ''Order index must be between 0 and 1000''"
  by (auto simp: validate_order_index_def validate_order_def MAX_ORDER_INDEX_def
      INVALID_ORDER_INDEX_def Specification_validate_order_index_def reorder_def)

theorem validate_order_index_range_witness:
  "validate_order_index (Some 1000000) \<and> \<not> validate_order_index (Some 1000001)
   \<and> MAX_ORDER_INDEX < 5000 \<and> validate_order (Some 5000) = Inr 5000
   \<and> reorder \<lparr>Specification.spec_id = 1, project_id = 1, content = ''s'', order_index = 0\<rparr> 5000
       = Inr \<lparr>Specification.spec_id = 1, project_id = 1, content = ''s'', order_index = 5000\<rparr>
   \<and> reorder \<lparr>Specification.spec_id = 1, project_id = 1, content = ''s'', order_index = 0\<rparr> 1000001
       = Inl (ValueError ''Order index must be between 0 and 1000'')"
proof -
  let ?s = "\<lparr>Specification.spec_id = 1, project_id = 1, content = ''s'', order_index = 0\<rparr>"
  have a: "validate_order_index (Some 1000000)"
    using validate_order_index_range [of 1000000] by simp
  have b: "\<not> validate_order_index (Some 1000001)"
    using validate_order_index_range [of 1000001] by simp
  have c: "MAX_ORDER_INDEX < 5000"
    by (simp add: MAX_ORDER_INDEX_def)
  have d: "validate_order (Some 5000) = Inr 5000"
    using validate_order_index_range [of 5000] c by simp
  have e: "reorder ?s 5000 = Inr (?s\<lparr>Specification.order_index := 5000\<rparr>)"
    using validate_order_index_range [of 5000 ?s] c by simp
  have f: "reorder ?s 1000001 = Inl (ValueError ''Order index must be between 0 and 1000'')"
    using validate_order_index_range [of 1000001 ?s] by simp
  show ?thesis using a b c d e f by simp
qed

end
